theory Spec2Isabelle
  imports Complex_Main
begin

section \<open>Numbers and vectors\<close>

text \<open>
  The program is TypeScript; every number in it is a JavaScript \<open>number\<close>. The
  embedding reads a number as a real: arithmetic is exact, and the values NaN and
  the infinities do not exist. \<open>Math.sin\<close>, \<open>Math.cos\<close>, \<open>Math.sqrt\<close>,
  \<open>Math.abs\<close>, \<open>Math.min\<close> and \<open>Math.max\<close> are the real functions of the same
  name, and \<open>Math.pow(a, 2)\<close> is the square.

  \<open>THREE.Vector3\<close> comes from the three.js library. The operations the flight
  controller calls are written out here with the library's meaning; \<open>normalize\<close>
  divides by \<open>length() || 1\<close>, so the zero vector stays the zero vector.
\<close>

datatype Vector3 = Vector3 (vec_x: real) (vec_y: real) (vec_z: real)

definition subVectors :: "Vector3 \<Rightarrow> Vector3 \<Rightarrow> Vector3" where
  "subVectors a b = Vector3 (vec_x a - vec_x b) (vec_y a - vec_y b) (vec_z a - vec_z b)"

definition addVectors :: "Vector3 \<Rightarrow> Vector3 \<Rightarrow> Vector3" where
  "addVectors a b = Vector3 (vec_x a + vec_x b) (vec_y a + vec_y b) (vec_z a + vec_z b)"

definition multiplyScalar :: "Vector3 \<Rightarrow> real \<Rightarrow> Vector3" where
  "multiplyScalar v s = Vector3 (vec_x v * s) (vec_y v * s) (vec_z v * s)"

definition length3 :: "Vector3 \<Rightarrow> real" where
  "length3 v = sqrt (vec_x v * vec_x v + vec_y v * vec_y v + vec_z v * vec_z v)"

definition divideScalar :: "Vector3 \<Rightarrow> real \<Rightarrow> Vector3" where
  "divideScalar v s = multiplyScalar v (1 / s)"

definition normalize :: "Vector3 \<Rightarrow> Vector3" where
  "normalize v = divideScalar v (if length3 v = 0 then 1 else length3 v)"

definition setLength :: "Vector3 \<Rightarrow> real \<Rightarrow> Vector3" where
  "setLength v l = multiplyScalar (normalize v) l"

definition distanceTo :: "Vector3 \<Rightarrow> Vector3 \<Rightarrow> real" where
  "distanceTo a b =
     (let dx = vec_x a - vec_x b; dy = vec_y a - vec_y b; dz = vec_z a - vec_z b
      in sqrt (dx * dx + dy * dy + dz * dz))"

text \<open>\<open>THREE.Vector2.distanceTo\<close>, on the two horizontal coordinates.\<close>

definition distanceTo2 :: "real \<times> real \<Rightarrow> real \<times> real \<Rightarrow> real" where
  "distanceTo2 a b =
     (let dx = fst a - fst b; dy = snd a - snd b in sqrt (dx * dx + dy * dy))"

text \<open>\<open>THREE.MathUtils.lerp\<close>.\<close>

definition lerp :: "real \<Rightarrow> real \<Rightarrow> real \<Rightarrow> real" where
  "lerp x y t = (1 - t) * x + t * y"

section \<open>The height field (utils/math: pseudoNoise, getHeight)\<close>

definition pseudoNoise :: "real \<Rightarrow> real \<Rightarrow> real" where
  "pseudoNoise x z =
     (let sinX = sin (x * 0.05);
          cosZ = cos (z * 0.05);
          sinX2 = sin (x * 0.15 + 100);
          cosZ2 = cos (z * 0.15 + 100)
      in (sinX * cosZ) + (sinX2 * cosZ2) * 0.5)"

definition getHeight :: "real \<Rightarrow> real \<Rightarrow> real" where
  "getHeight x z =
     (let y = pseudoNoise x z * 6 + 12;
          y = y + sin (x * 0.5) * cos (z * 0.5) * 1.0;
          mountainCenterX = (250 :: real);
          mountainCenterZ = (-120 :: real);
          mountainRadius = (160 :: real);
          warpFreq = (0.04 :: real);
          warpAmp = (40 :: real);
          warpX = sin (x * warpFreq) * warpAmp + cos (z * warpFreq * 0.7) * warpAmp * 0.5;
          warpZ = cos (z * warpFreq * 0.8) * warpAmp + sin (x * warpFreq * 0.5) * warpAmp * 0.5;
          dx = (x - warpX) - mountainCenterX;
          dz = (z - warpZ) - mountainCenterZ;
          distFromMountain = sqrt (dx * dx + dz * dz);
          y = (if distFromMountain < mountainRadius then
                 (let normalizedDist = distFromMountain / mountainRadius;
                      shape = 0.5 + 0.5 * cos (normalizedDist * pi);
                      mountainHeight = (140 :: real);
                      mountainY = shape * mountainHeight;
                      roughness = (pseudoNoise (x * 0.15) (z * 0.15) * 15
                                   + \<bar>sin (x * 0.05) * cos (z * 0.05)\<bar> * 20) * shape
                  in y + (mountainY + roughness))
               else y);
          lakeCenterX = (-200 :: real);
          lakeCenterZ = (80 :: real);
          distortionX = sin (z * 0.1) * 15;
          distortionZ = cos (x * 0.1) * 15;
          lx = (x - lakeCenterX) + distortionX;
          lz = (z - lakeCenterZ) + distortionZ;
          lakeRadiusX = (200 :: real);
          lakeRadiusZ = (140 :: real);
          dist = sqrt ((lx * lx) / (lakeRadiusX * lakeRadiusX)
                       + (lz * lz) / (lakeRadiusZ * lakeRadiusZ));
          y = (if dist < 1.0 then
                 (let depthFactor = (1.0 - dist) ^ 2 in y - depthFactor * 45)
               else y);
          y = (if y < -12 then -12 else y)
      in y)"

section \<open>The ripple pool (Birds.tsx)\<close>

definition MAX_COUNT :: nat where "MAX_COUNT = 5"
definition WAVES_PER_SPLASH :: nat where "WAVES_PER_SPLASH = 1"
definition ENTRY_SCALE :: real where "ENTRY_SCALE = 1.2"
definition SKIM_SCALE :: real where "SKIM_SCALE = 0.4"
definition EXPANSION_SPEED :: real where "EXPANSION_SPEED = 25"
definition LIFE_DURATION :: real where "LIFE_DURATION = 2.0"
definition FADE_SPEED :: real where "FADE_SPEED = 1.0"
definition BASE_OPACITY :: real where "BASE_OPACITY = 0.1"

record ripple =
  pos :: Vector3
  scale :: real
  life :: real
  maxLife :: real
  active :: bool

definition blankRipple :: ripple where
  "blankRipple = \<lparr>pos = Vector3 0 0 0, scale = 0, life = 0, maxLife = 0, active = False\<rparr>"

text \<open>The pool is filled once, by a loop that pushes \<open>MAX_COUNT\<close> blank entries.\<close>

definition initialRipples :: "ripple list" where
  "initialRipples = replicate MAX_COUNT blankRipple"

text \<open>
  \<open>rippleData.current.find(d => !d.active)\<close> yields the first inactive entry, which
  is then written in place; the model finds its index and updates the list there.
\<close>

fun findInactive :: "ripple list \<Rightarrow> nat option" where
  "findInactive [] = None"
| "findInactive (d # ds) = (if \<not> active d then Some 0 else map_option Suc (findInactive ds))"

definition spawnWave :: "real \<Rightarrow> real \<Rightarrow> real \<Rightarrow> nat \<Rightarrow> ripple list \<Rightarrow> ripple list" where
  "spawnWave x z initialScale i rs =
     (case findInactive rs of
        None \<Rightarrow> rs
      | Some k \<Rightarrow>
          rs[k := (rs ! k)\<lparr>active := True,
                           pos := Vector3 x (-1.9) z,
                           scale := initialScale * (0.8 + real i * 0.2),
                           maxLife := LIFE_DURATION + real i * 0.5,
                           life := LIFE_DURATION + real i * 0.5\<rparr>])"

definition spawnRipple :: "real \<Rightarrow> real \<Rightarrow> real \<Rightarrow> ripple list \<Rightarrow> ripple list" where
  "spawnRipple x z initialScale rs = fold (spawnWave x z initialScale) [0..<WAVES_PER_SPLASH] rs"

text \<open>
  The body of the \<open>forEach\<close> that ages the pool. It returns the entry as it is left
  and what is written to the instanced mesh for it: the zero matrix, or position,
  scale and brightness.
\<close>

datatype meshInstance = MatrixZero | Drawn Vector3 real real

definition updateRipple :: "real \<Rightarrow> ripple \<Rightarrow> ripple \<times> meshInstance" where
  "updateRipple dt p =
     (if active p then
        (let p = p\<lparr>life := life p - dt * FADE_SPEED\<rparr>;
             p = p\<lparr>scale := scale p + dt * EXPANSION_SPEED\<rparr>
         in if life p \<le> 0 then (p\<lparr>active := False, scale := 0\<rparr>, MatrixZero)
            else (p, Drawn (pos p) (scale p) (max 0 (life p / maxLife p) * BASE_OPACITY)))
      else (p, MatrixZero))"

definition updateRipples :: "real \<Rightarrow> ripple list \<Rightarrow> ripple list" where
  "updateRipples dt rs = map (\<lambda>p. fst (updateRipple dt p)) rs"

definition drawRipples :: "real \<Rightarrow> ripple list \<Rightarrow> meshInstance list" where
  "drawRipples dt rs = map (\<lambda>p. snd (updateRipple dt p)) rs"

definition activeCount :: "ripple list \<Rightarrow> nat" where
  "activeCount rs = length (filter active rs)"

section \<open>The flight controller (Birds.tsx, CinematicParrot)\<close>

datatype BirdState =
  CINEMATIC_ENTRY | APPROACH_LAKE | DIVE_LAKE | SKIM | CLIMB_MOUNTAIN | DIVE_BOMB | PULL_UP

definition LAKE_CENTER :: Vector3 where "LAKE_CENTER = Vector3 (-200) (-2) 80"
definition MOUNTAIN_FIRE_CENTER :: Vector3 where "MOUNTAIN_FIRE_CENTER = Vector3 180 90 (-60)"

text \<open>
  The mutable reference cells of the component, as one record. The animation
  mixer, the orientation of the model and the matrices of the instanced mesh are
  presentation: nothing the controller reads depends on them, and they are left out.
\<close>

record actor =
  state :: BirdState
  velocity :: Vector3
  position :: Vector3
  prevY :: real
  target :: Vector3
  lastSplashTime :: real
  rippleData :: "ripple list"

definition initialActor :: actor where
  "initialActor =
     \<lparr>state = CINEMATIC_ENTRY, velocity = Vector3 0 0 0, position = Vector3 (-200) 100 100,
      prevY = 210, target = Vector3 0 0 0, lastSplashTime = 0, rippleData = initialRipples\<rparr>"

text \<open>
  What one call of the frame callback receives from outside: the frame's \<open>delta\<close>,
  the clock's elapsed time, the value \<open>Math.random()\<close> returns if it is called, and
  whether the two mesh references are mounted.
\<close>

record frame =
  delta :: real
  time :: real
  random :: real
  groupRef :: bool
  ripplesRef :: bool

definition skimStart :: Vector3 where
  "skimStart = Vector3 (vec_x LAKE_CENTER + 20) (-2) (vec_z LAKE_CENTER - 10)"

definition skimEnd :: Vector3 where
  "skimEnd = Vector3 (vec_x LAKE_CENTER + 75) (-2) (vec_z LAKE_CENTER - 30)"

definition waterLevel :: real where "waterLevel = -2.0"

definition distToEntry :: "Vector3 \<Rightarrow> real" where
  "distToEntry currentPos =
     sqrt ((vec_x currentPos - vec_x skimStart) ^ 2 + (vec_z currentPos - vec_z skimStart) ^ 2)"

text \<open>The ripple trigger that runs before the state machine.\<close>

definition rippleTrigger :: "frame \<Rightarrow> BirdState \<Rightarrow> actor \<Rightarrow> actor" where
  "rippleTrigger f currentState a =
     (if currentState = DIVE_LAKE \<and> distToEntry (position a) < 25 \<and> vec_y (position a) < -1.5
         \<and> time f - lastSplashTime a > 2.0
      then a\<lparr>rippleData := spawnRipple (vec_x (position a)) (vec_z (position a)) ENTRY_SCALE
                              (rippleData a),
             lastSplashTime := time f\<rparr>
      else a)"

record controls =
  desiredSpeed :: real
  turnSpeed :: real
  flapSpeed :: real

text \<open>
  The state machine: one branch for each value of \<open>currentState\<close>, the state read
  at the start of the frame. Each branch sets the target and may write the next state.
\<close>

fun stateMachine :: "BirdState \<Rightarrow> frame \<Rightarrow> actor \<Rightarrow> actor \<times> controls" where
  "stateMachine CINEMATIC_ENTRY f a =
     (let a = a\<lparr>target := Vector3 (vec_x MOUNTAIN_FIRE_CENTER) 140 (vec_z MOUNTAIN_FIRE_CENTER)\<rparr>;
          a = (if distanceTo (position a) (target a) < 80 then a\<lparr>state := DIVE_BOMB\<rparr> else a)
      in (a, \<lparr>desiredSpeed = 100, turnSpeed = 2.0, flapSpeed = 3.0\<rparr>))"
| "stateMachine APPROACH_LAKE f a =
     (let a = a\<lparr>target := Vector3 (vec_x skimStart) 60 (vec_z skimStart)\<rparr>;
          a = (if distanceTo (position a) (target a) < 80 then a\<lparr>state := DIVE_LAKE\<rparr> else a)
      in (a, \<lparr>desiredSpeed = 40, turnSpeed = 2.0, flapSpeed = 1.5\<rparr>))"
| "stateMachine DIVE_LAKE f a =
     (let a = a\<lparr>target := Vector3 (vec_x skimStart) (-3.0) (vec_z skimStart)\<rparr>;
          a = (if vec_y (position a) \<le> -1.5 \<or> distanceTo (position a) (target a) < 20 then
                 (let a = a\<lparr>state := SKIM\<rparr>
                  in if time f - lastSplashTime a > 2.0
                     then a\<lparr>rippleData := spawnRipple (vec_x (position a)) (vec_z (position a))
                                             ENTRY_SCALE (rippleData a),
                            lastSplashTime := time f\<rparr>
                     else a)
               else a)
      in (a, \<lparr>desiredSpeed = 90, turnSpeed = 3.0, flapSpeed = 1.5\<rparr>))"
| "stateMachine SKIM f a =
     (let a = a\<lparr>target := skimEnd\<rparr>;
          oscillation = sin (time f * 15) * 0.6;
          a = a\<lparr>target := Vector3 (vec_x (target a)) (-1.2 + oscillation) (vec_z (target a))\<rparr>;
          a = (if random f > 0.85
               then a\<lparr>rippleData := spawnRipple (vec_x (position a)) (vec_z (position a))
                                       SKIM_SCALE (rippleData a)\<rparr>
               else a);
          distToTarget = distanceTo2 (vec_x (position a), vec_z (position a))
                                     (vec_x (target a), vec_z (target a));
          a = (if distToTarget < 20 then a\<lparr>state := CLIMB_MOUNTAIN\<rparr> else a)
      in (a, \<lparr>desiredSpeed = 70, turnSpeed = 2.0, flapSpeed = 4.0\<rparr>))"
| "stateMachine CLIMB_MOUNTAIN f a =
     (let a = a\<lparr>target := Vector3 (vec_x MOUNTAIN_FIRE_CENTER - 100) 200
                                  (vec_z MOUNTAIN_FIRE_CENTER + 50)\<rparr>;
          a = (if distanceTo (position a) (target a) < 60 then a\<lparr>state := DIVE_BOMB\<rparr> else a)
      in (a, \<lparr>desiredSpeed = 60, turnSpeed = 2.0, flapSpeed = 1.5\<rparr>))"
| "stateMachine DIVE_BOMB f a =
     (let a = a\<lparr>target := MOUNTAIN_FIRE_CENTER\<rparr>;
          a = a\<lparr>target := Vector3 (vec_x (target a)) 80 (vec_z (target a))\<rparr>;
          a = (if distanceTo (position a) (target a) < 60 then a\<lparr>state := PULL_UP\<rparr> else a)
      in (a, \<lparr>desiredSpeed = 90, turnSpeed = 2.0, flapSpeed = 0.5\<rparr>))"
| "stateMachine PULL_UP f a =
     (let a = a\<lparr>target := Vector3 (vec_x MOUNTAIN_FIRE_CENTER) 250
                                  (vec_z MOUNTAIN_FIRE_CENTER - 100)\<rparr>;
          a = (if vec_y (position a) > 200 then a\<lparr>state := APPROACH_LAKE\<rparr> else a)
      in (a, \<lparr>desiredSpeed = 60, turnSpeed = 2.0, flapSpeed = 2.5\<rparr>))"

text \<open>Seek steering, the speed clamp and the integration of the position.\<close>

definition steering :: "real \<Rightarrow> controls \<Rightarrow> actor \<Rightarrow> actor" where
  "steering dt c a =
     (let desiredDir = normalize (subVectors (target a) (position a));
          steer = subVectors (multiplyScalar desiredDir (desiredSpeed c)) (velocity a);
          a = a\<lparr>velocity := addVectors (velocity a) (multiplyScalar steer (turnSpeed c * dt))\<rparr>;
          a = (if length3 (velocity a) > desiredSpeed c
               then a\<lparr>velocity := setLength (velocity a) (desiredSpeed c)\<rparr> else a)
      in a\<lparr>position := addVectors (position a) (multiplyScalar (velocity a) dt)\<rparr>)"

text \<open>The safe altitude of the terrain collision step, from the sampled terrain height.\<close>

definition safeAltitude :: "BirdState \<Rightarrow> real \<Rightarrow> real" where
  "safeAltitude currentState terrainHeight =
     (if terrainHeight < waterLevel then
        (if currentState = SKIM \<or> currentState = DIVE_LAKE then waterLevel - 0.5
         else waterLevel + 2.0)
      else
        (if currentState = SKIM then terrainHeight + 5.0 else terrainHeight + 2.0))"

definition terrainCollision :: "real \<Rightarrow> BirdState \<Rightarrow> actor \<Rightarrow> actor" where
  "terrainCollision dt currentState a =
     (let currentPos = position a;
          currentVel = velocity a;
          terrainHeight = getHeight (vec_x currentPos) (vec_z currentPos);
          safe = safeAltitude currentState terrainHeight
      in if vec_y currentPos < safe then
           a\<lparr>position := Vector3 (vec_x currentPos) (lerp (vec_y currentPos) safe (dt * 10))
                                  (vec_z currentPos),
             velocity := (if vec_y currentVel < 0
                          then Vector3 (vec_x currentVel) (vec_y currentVel * 0.5) (vec_z currentVel)
                          else currentVel)\<rparr>
         else a)"

text \<open>
  The frame up to and including the integration of the position, and the whole
  frame callback.
\<close>

definition moved :: "frame \<Rightarrow> actor \<Rightarrow> actor" where
  "moved f a =
     (let dt = min (delta f) 0.1;
          currentState = state a;
          a = rippleTrigger f currentState a;
          (a, c) = stateMachine currentState f a
      in steering dt c a)"

definition useFrame :: "frame \<Rightarrow> actor \<Rightarrow> actor" where
  "useFrame f a =
     (if \<not> groupRef f then a
      else
        (let dt = min (delta f) 0.1;
             currentState = state a;
             a = moved f a;
             a = terrainCollision dt currentState a;
             a = a\<lparr>prevY := vec_y (position a)\<rparr>
         in if ripplesRef f then a\<lparr>rippleData := updateRipples dt (rippleData a)\<rparr> else a))"

section \<open>Reachable pools, the splash conditions, and concrete inputs\<close>

text \<open>
  The pools the program can hold: the initial pool, and whatever a call of
  \<open>spawnRipple\<close> or one ageing pass makes of a pool it can hold.
\<close>

inductive poolReachable :: "ripple list \<Rightarrow> bool" where
  pool_init: "poolReachable initialRipples"
| pool_spawn: "poolReachable rs \<Longrightarrow> poolReachable (spawnRipple x z s rs)"
| pool_tick: "poolReachable rs \<Longrightarrow> poolReachable (updateRipples dt rs)"

text \<open>
  The exit condition of the \<open>DIVE_LAKE\<close> branch, with its target written out, and
  the condition under which a frame that starts in \<open>DIVE_LAKE\<close> calls
  \<open>spawnRipple\<close>.
\<close>

definition diveExit :: "actor \<Rightarrow> bool" where
  "diveExit a \<longleftrightarrow>
     vec_y (position a) \<le> -1.5 \<or> distanceTo (position a) (Vector3 (-180) (-3) 70) < 20"

definition diveSplash :: "frame \<Rightarrow> actor \<Rightarrow> bool" where
  "diveSplash f a \<longleftrightarrow> time f - lastSplashTime a > 2.0 \<and> diveExit a"

text \<open>Pools, actors and frames at which the theorems below are instantiated.\<close>

definition twoRipples :: "ripple list" where
  "twoRipples =
     [\<lparr>pos = Vector3 (-170) (-1.9) 65, scale = 3.46, life = 1.9, maxLife = 2, active = True\<rparr>,
      \<lparr>pos = Vector3 (-160) (-1.9) 60, scale = 0, life = -0.05, maxLife = 2, active = False\<rparr>,
      \<lparr>pos = Vector3 (-150) (-1.9) 58, scale = 47.82, life = 0.1, maxLife = 2, active = True\<rparr>,
      blankRipple, blankRipple]"

definition fullRipples :: "ripple list" where
  "fullRipples = replicate 5 \<lparr>pos = Vector3 (-170) (-1.9) 65, scale = 3.46, life = 1.9,
                               maxLife = 2, active = True\<rparr>"

definition climbActor :: actor where
  "climbActor =
     \<lparr>state = CLIMB_MOUNTAIN, velocity = Vector3 65 0 (-25), position = Vector3 (-130) (-1.2) 60,
      prevY = -1.2, target = Vector3 (-125) (-1.2) 50, lastSplashTime = 12,
      rippleData = initialRipples\<rparr>"

definition sixtyHz :: frame where
  "sixtyHz = \<lparr>delta = 1 / 60, time = 14, random = 0.5, groupRef = True, ripplesRef = True\<rparr>"

definition stalled :: frame where
  "stalled = \<lparr>delta = 0.25, time = 14, random = 0.5, groupRef = True, ripplesRef = True\<rparr>"

definition diveActorFar :: actor where
  "diveActorFar =
     \<lparr>state = DIVE_LAKE, velocity = Vector3 (-80) (-10) 0, position = Vector3 (-150) (-1.6) 70,
      prevY = -1.4, target = Vector3 (-180) (-3) 70, lastSplashTime = 0,
      rippleData = initialRipples\<rparr>"

definition diveActorHigh :: actor where
  "diveActorHigh =
     \<lparr>state = DIVE_LAKE, velocity = Vector3 (-72) (-54) 0, position = Vector3 (-168) 6 70,
      prevY = 6.9, target = Vector3 (-180) (-3) 70, lastSplashTime = 0,
      rippleData = initialRipples\<rparr>"

definition diveActorNear :: actor where
  "diveActorNear =
     \<lparr>state = DIVE_LAKE, velocity = Vector3 (-85) (-20) 0, position = Vector3 (-168) (-1.6) 70,
      prevY = -1.3, target = Vector3 (-180) (-3) 70, lastSplashTime = 0,
      rippleData = initialRipples\<rparr>"

definition diveActorAgain :: actor where
  "diveActorAgain =
     \<lparr>state = DIVE_LAKE, velocity = Vector3 (-85) (-20) 0, position = Vector3 (-168) (-1.6) 70,
      prevY = -1.3, target = Vector3 (-180) (-3) 70, lastSplashTime = 10,
      rippleData = twoRipples\<rparr>"

definition diveFrame :: frame where
  "diveFrame = \<lparr>delta = 1 / 60, time = 10, random = 0.5, groupRef = True, ripplesRef = True\<rparr>"

definition diveFrameSoon :: frame where
  "diveFrameSoon = \<lparr>delta = 1 / 60, time = 11.5, random = 0.5, groupRef = True, ripplesRef = True\<rparr>"

section \<open>The height field: bounds\<close>

lemma sin_cos_prod_bound: "\<bar>sin (a :: real) * cos b\<bar> \<le> 1"
proof -
  have "\<bar>sin a * cos b\<bar> = \<bar>sin a\<bar> * \<bar>cos b\<bar>" by (simp add: abs_mult)
  also have "\<dots> \<le> 1 * 1"
    by (rule mult_mono) (simp_all add: abs_sin_le_one abs_cos_le_one)
  finally show ?thesis by simp
qed

lemma pseudoNoise_bound: "\<bar>pseudoNoise x z\<bar> \<le> 1.5"
proof -
  have a: "\<bar>sin (x * 0.05) * cos (z * 0.05)\<bar> \<le> 1" by (rule sin_cos_prod_bound)
  have b: "\<bar>sin (x * 0.15 + 100) * cos (z * 0.15 + 100)\<bar> \<le> 1" by (rule sin_cos_prod_bound)
  show ?thesis unfolding pseudoNoise_def Let_def using a b by linarith
qed

lemma floor_clamp: "(-12 :: real) \<le> (if y < -12 then -12 else y)"
  by simp

text \<open>
  Claim C2. For all inputs \<open>x\<close> and \<open>z\<close> the height field returns at least \<open>-12\<close>:
  the last step of \<open>getHeight\<close> floors the elevation at that fixed minimum.
\<close>

theorem getHeight_floor: "-12 \<le> getHeight x z"
  unfolding getHeight_def Let_def by (rule floor_clamp)

text \<open>
  Claim C9. The base pseudo-noise is at most \<open>1.5\<close> in absolute value, its first
  term being bounded by \<open>1\<close> and its second by \<open>0.5\<close>; so the base term of the
  terrain, \<open>pseudoNoise x z * 6 + 12\<close>, lies in \<open>[3, 21]\<close>, strictly above the water
  plane at \<open>-2\<close>.
\<close>

theorem pseudoNoise_base_range:
  "\<bar>pseudoNoise x z\<bar> \<le> 1.5
   \<and> \<bar>sin (x * 0.05) * cos (z * 0.05)\<bar> \<le> 1
   \<and> \<bar>(sin (x * 0.15 + 100) * cos (z * 0.15 + 100)) * 0.5\<bar> \<le> 0.5
   \<and> 3 \<le> pseudoNoise x z * 6 + 12
   \<and> pseudoNoise x z * 6 + 12 \<le> 21
   \<and> waterLevel < pseudoNoise x z * 6 + 12"
proof -
  have n: "\<bar>pseudoNoise x z\<bar> \<le> 1.5" by (rule pseudoNoise_bound)
  have a: "\<bar>sin (x * 0.05) * cos (z * 0.05)\<bar> \<le> 1" by (rule sin_cos_prod_bound)
  have b: "\<bar>sin (x * 0.15 + 100) * cos (z * 0.15 + 100)\<bar> \<le> 1" by (rule sin_cos_prod_bound)
  from b have b': "\<bar>(sin (x * 0.15 + 100) * cos (z * 0.15 + 100)) * 0.5\<bar> \<le> 0.5"
    by linarith
  from n have r: "3 \<le> pseudoNoise x z * 6 + 12" "pseudoNoise x z * 6 + 12 \<le> 21"
    by linarith+
  from r(1) have w: "waterLevel < pseudoNoise x z * 6 + 12"
    unfolding waterLevel_def by linarith
  from n a b' r w show ?thesis by blast
qed

text \<open>
  Claim C7. At the lake centre, the coordinate \<open>(-200, 80)\<close> of \<open>LAKE_CENTER\<close>, the
  height field is strictly below the water plane at \<open>-2.0\<close>. The mountain is out of
  reach there, the terrain before carving is at most \<open>22\<close>, and the crater takes
  more than \<open>24\<close> away.
\<close>

theorem getHeight_lake_center: "getHeight (vec_x LAKE_CENTER) (vec_z LAKE_CENTER) < -2.0"
proof -
  define x z :: real where "x = -200" and "z = 80"
  define y1 where "y1 = pseudoNoise x z * 6 + 12 + sin (x * 0.5) * cos (z * 0.5) * 1.0"
  define warpX where "warpX = sin (x * 0.04) * 40 + cos (z * 0.04 * 0.7) * 40 * 0.5"
  define warpZ where "warpZ = cos (z * 0.04 * 0.8) * 40 + sin (x * 0.04 * 0.5) * 40 * 0.5"
  define dx where "dx = (x - warpX) - 250"
  define dz where "dz = (z - warpZ) - (-120)"
  define lx where "lx = (x - (-200)) + sin (z * 0.1) * 15"
  define lz where "lz = (z - 80) + cos (x * 0.1) * 15"
  define dL where "dL = sqrt ((lx * lx) / (200 * 200) + (lz * lz) / (140 * 140))"
  have y1: "y1 \<le> 22"
    using pseudoNoise_bound[of x z] sin_cos_prod_bound[of "x * 0.5" "z * 0.5"]
    unfolding y1_def by linarith
  have "-1 \<le> sin (x * 0.04)" "-1 \<le> cos (z * 0.04 * 0.7)" by simp_all
  then have "warpX \<ge> -60" unfolding warpX_def by linarith
  then have dxb: "dx \<le> -390" unfolding dx_def x_def by simp
  have "\<bar>dx\<bar> \<le> sqrt (dx * dx + dz * dz)"
    using real_sqrt_sum_squares_ge1[of "\<bar>dx\<bar>" dz] by (simp add: power2_eq_square)
  with dxb have far: "\<not> sqrt (dx * dx + dz * dz) < 160" by linarith
  have lxb: "lx * lx \<le> 225"
  proof -
    have "lx = sin (z * 0.1) * 15" unfolding lx_def x_def by simp
    then have "lx * lx = (sin (z * 0.1))\<^sup>2 * 225" by (simp add: power2_eq_square)
    moreover have "(sin (z * 0.1))\<^sup>2 \<le> 1" by (simp add: abs_square_le_1)
    ultimately show ?thesis by simp
  qed
  have lzb: "lz * lz \<le> 225"
  proof -
    have "lz = cos (x * 0.1) * 15" unfolding lz_def z_def by simp
    then have "lz * lz = (cos (x * 0.1))\<^sup>2 * 225" by (simp add: power2_eq_square)
    moreover have "(cos (x * 0.1))\<^sup>2 \<le> 1" by (simp add: abs_square_le_1)
    ultimately show ?thesis by simp
  qed
  have "(lx * lx) / (200 * 200) + (lz * lz) / (140 * 140) \<le> (0.16)\<^sup>2"
    using lxb lzb by (simp add: power2_eq_square field_simps)
  then have "dL \<le> 0.16" unfolding dL_def
    by (intro real_le_lsqrt) simp_all
  moreover have "0 \<le> dL" unfolding dL_def by simp
  ultimately have dLb: "dL < 1" and df: "(0.84)\<^sup>2 \<le> (1 - dL)\<^sup>2"
    by (simp_all add: power_mono)
  have gh: "getHeight x z = (let y3 = (if dL < 1 then y1 - (1 - dL)\<^sup>2 * 45 else y1)
                             in if y3 < -12 then -12 else y3)"
    using far
    unfolding getHeight_def Let_def y1_def dL_def lx_def lz_def dx_def dz_def warpX_def warpZ_def
    by simp
  have "getHeight x z < -2" unfolding gh Let_def using dLb df y1
    by (simp add: power2_eq_square)
  then show ?thesis unfolding x_def z_def LAKE_CENTER_def by simp
qed

section \<open>The ripple pool: spawning\<close>

lemma spawnRipple_eq_wave: "spawnRipple x z s rs = spawnWave x z s 0 rs"
  by (simp add: spawnRipple_def WAVES_PER_SPLASH_def)

lemma findInactive_None: "findInactive rs = None \<longleftrightarrow> (\<forall>r \<in> set rs. active r)"
  by (induction rs) auto

lemma findInactive_Some:
  "findInactive rs = Some k \<Longrightarrow> k < length rs \<and> \<not> active (rs ! k) \<and> (\<forall>j < k. active (rs ! j))"
proof (induction rs arbitrary: k)
  case Nil
  then show ?case by simp
next
  case (Cons d ds)
  show ?case
  proof (cases "active d")
    case False
    with Cons.prems show ?thesis by simp
  next
    case True
    with Cons.prems obtain k' where k': "findInactive ds = Some k'" "k = Suc k'"
      by auto
    from Cons.IH[OF k'(1)] True k'(2) show ?thesis
      by (auto simp: nth_Cons split: nat.splits)
  qed
qed

lemma length_spawnWave: "length (spawnWave x z s i rs) = length rs"
  by (simp add: spawnWave_def split: option.splits)

lemma length_spawnRipple: "length (spawnRipple x z s rs) = length rs"
  by (simp add: spawnRipple_eq_wave length_spawnWave)

lemma length_updateRipples: "length (updateRipples dt rs) = length rs"
  by (simp add: updateRipples_def)

lemma activeCount_le: "activeCount rs \<le> length rs"
  by (simp add: activeCount_def)

lemma length_initialRipples: "length initialRipples = 5"
  by (simp add: initialRipples_def MAX_COUNT_def)

lemma poolReachable_length: "poolReachable rs \<Longrightarrow> length rs = 5"
  by (induction rule: poolReachable.induct)
     (simp_all add: length_initialRipples length_spawnRipple length_updateRipples)

lemma spawnRipple_full: "\<forall>r \<in> set rs. active r \<Longrightarrow> spawnRipple x z s rs = rs"
  using findInactive_None[of rs] by (simp add: spawnRipple_eq_wave spawnWave_def)

lemma spawnWave_active_same:
  "i < length rs \<Longrightarrow> active (rs ! i) \<Longrightarrow> spawnWave x z s n rs ! i = rs ! i"
proof (cases "findInactive rs")
  case None
  then show ?thesis by (simp add: spawnWave_def)
next
  case (Some k)
  assume a: "active (rs ! i)"
  from findInactive_Some[OF Some] a have "k \<noteq> i" by auto
  with Some show ?thesis by (simp add: spawnWave_def)
qed

lemma spawnWave_changed:
  "i < length rs \<Longrightarrow> spawnWave x z s n rs ! i \<noteq> rs ! i \<Longrightarrow> findInactive rs = Some i"
proof (cases "findInactive rs")
  case None
  assume "spawnWave x z s n rs ! i \<noteq> rs ! i"
  with None show ?thesis by (simp add: spawnWave_def)
next
  case (Some k)
  assume d: "spawnWave x z s n rs ! i \<noteq> rs ! i"
  have "k = i"
  proof (rule ccontr)
    assume "k \<noteq> i"
    with Some have "spawnWave x z s n rs ! i = rs ! i" by (simp add: spawnWave_def)
    with d show False by simp
  qed
  with Some show ?thesis by simp
qed

lemma ripple_overwrite:
  "(r :: ripple)\<lparr>active := a, pos := p, scale := s, maxLife := m, life := l\<rparr>
     = \<lparr>pos = p, scale = s, life = l, maxLife = m, active = a\<rparr>"
  by (cases r) simp

lemma spawnRipple_Some:
  "findInactive rs = Some k \<Longrightarrow>
   spawnRipple x z s rs =
     rs[k := \<lparr>pos = Vector3 x (-1.9) z, scale = s * 0.8, life = LIFE_DURATION,
              maxLife = LIFE_DURATION, active = True\<rparr>]"
  by (simp add: spawnRipple_eq_wave spawnWave_def ripple_overwrite)

lemma activeCount_list_update:
  "k < length rs \<Longrightarrow> \<not> active (rs ! k) \<Longrightarrow> active r \<Longrightarrow>
   activeCount (rs[k := r]) = activeCount rs + 1"
proof (induction rs arbitrary: k)
  case Nil
  then show ?case by simp
next
  case (Cons d ds)
  show ?case
  proof (cases k)
    case 0
    with Cons.prems show ?thesis by (simp add: activeCount_def)
  next
    case (Suc j)
    with Cons.prems have "activeCount (ds[j := r]) = activeCount ds + 1"
      by (intro Cons.IH) simp_all
    with Suc show ?thesis by (simp add: activeCount_def)
  qed
qed

lemma activeCount_all: "\<forall>r \<in> set rs. active r \<Longrightarrow> activeCount rs = length rs"
  by (simp add: activeCount_def)

lemma activeCount_full: "activeCount rs = length rs \<Longrightarrow> \<forall>r \<in> set rs. active r"
proof (induction rs)
  case Nil
  then show ?case by simp
next
  case (Cons d ds)
  have le: "length (filter active ds) \<le> length ds" by (rule length_filter_le)
  show ?case
  proof (cases "active d")
    case True
    with Cons.prems have "activeCount ds = length ds" by (simp add: activeCount_def)
    with Cons.IH True show ?thesis by simp
  next
    case False
    with Cons.prems le show ?thesis by (simp add: activeCount_def)
  qed
qed

lemma activeCount_spawnRipple_eq:
  "activeCount (spawnRipple x z s rs) = min (length rs) (activeCount rs + 1)"
proof (cases "findInactive rs")
  case None
  then have a: "\<forall>r \<in> set rs. active r" by (simp add: findInactive_None)
  from spawnRipple_full[OF a] activeCount_all[OF a] show ?thesis by simp
next
  case (Some k)
  from findInactive_Some[OF Some] have k: "k < length rs" "\<not> active (rs ! k)" by simp_all
  have e: "activeCount (spawnRipple x z s rs) = activeCount rs + 1"
    unfolding spawnRipple_Some[OF Some] by (rule activeCount_list_update[OF k]) simp
  have "activeCount (spawnRipple x z s rs) \<le> length rs"
    using activeCount_le[of "spawnRipple x z s rs"] by (simp add: length_spawnRipple)
  with e show ?thesis by simp
qed

lemma six_spawns_any:
  "length rs = 5 \<Longrightarrow>
   activeCount (spawnRipple x6 z6 s6 (spawnRipple x5 z5 s5 (spawnRipple x4 z4 s4
     (spawnRipple x3 z3 s3 (spawnRipple x2 z2 s2 (spawnRipple x1 z1 s1 rs)))))) = 5"
  by (simp add: activeCount_spawnRipple_eq length_spawnRipple)

lemma activeCount_spawnRipple: "activeCount (spawnRipple x z s rs) \<le> activeCount rs + 1"
  by (simp add: activeCount_spawnRipple_eq)

text \<open>
  Claim C10. A call of \<open>spawnRipple\<close> never modifies an active entry: every entry
  that is active before the call is the same entry after it, in position, scale,
  life, maximal life and flag. The only entry written is the first inactive one,
  when there is one; it is overwritten with the new splash.
\<close>

theorem spawnRipple_frame:
  "length (spawnRipple x z s rs) = length rs
   \<and> (\<forall>i < length rs. active (rs ! i) \<longrightarrow> spawnRipple x z s rs ! i = rs ! i)
   \<and> (\<forall>i < length rs. spawnRipple x z s rs ! i \<noteq> rs ! i \<longrightarrow> findInactive rs = Some i)
   \<and> (\<forall>k. findInactive rs = Some k \<longrightarrow>
          k < length rs \<and> \<not> active (rs ! k) \<and> (\<forall>j < k. active (rs ! j))
          \<and> spawnRipple x z s rs =
              rs[k := \<lparr>pos = Vector3 x (-1.9) z, scale = s * 0.8, life = LIFE_DURATION,
                       maxLife = LIFE_DURATION, active = True\<rparr>])"
proof -
  have 1: "length (spawnRipple x z s rs) = length rs" by (rule length_spawnRipple)
  have 2: "\<forall>i < length rs. active (rs ! i) \<longrightarrow> spawnRipple x z s rs ! i = rs ! i"
    by (simp add: spawnRipple_eq_wave spawnWave_active_same)
  have 3: "\<forall>i < length rs. spawnRipple x z s rs ! i \<noteq> rs ! i \<longrightarrow> findInactive rs = Some i"
    using spawnWave_changed[of _ rs x z s 0] by (simp add: spawnRipple_eq_wave)
  have 4: "\<forall>k. findInactive rs = Some k \<longrightarrow>
          k < length rs \<and> \<not> active (rs ! k) \<and> (\<forall>j < k. active (rs ! j))
          \<and> spawnRipple x z s rs =
              rs[k := \<lparr>pos = Vector3 x (-1.9) z, scale = s * 0.8, life = LIFE_DURATION,
                       maxLife = LIFE_DURATION, active = True\<rparr>]"
    using findInactive_Some[of rs] spawnRipple_Some[of rs _ x z s] by blast
  from 1 2 3 4 show ?thesis by blast
qed

theorem spawnRipple_frame_witness:
  "(0::nat) < length twoRipples \<and> active (twoRipples ! 0)
   \<and> spawnRipple 7 8 SKIM_SCALE twoRipples ! 0 = twoRipples ! 0
   \<and> (1::nat) < length twoRipples \<and> spawnRipple 7 8 SKIM_SCALE twoRipples ! 1 \<noteq> twoRipples ! 1
   \<and> findInactive twoRipples = Some 1
   \<and> spawnRipple 7 8 SKIM_SCALE twoRipples =
        twoRipples[1 := \<lparr>pos = Vector3 7 (-1.9) 8, scale = SKIM_SCALE * 0.8, life = LIFE_DURATION,
                          maxLife = LIFE_DURATION, active = True\<rparr>]"
proof -
  have h: "(0::nat) < length twoRipples" "active (twoRipples ! 0)" "(1::nat) < length twoRipples"
    "findInactive twoRipples = Some 1"
    by (simp_all add: twoRipples_def)
  have d: "spawnRipple 7 8 SKIM_SCALE twoRipples ! 1 \<noteq> twoRipples ! 1"
    by (simp add: spawnRipple_eq_wave spawnWave_def twoRipples_def)
  from h d spawnRipple_frame[of 7 8 SKIM_SCALE twoRipples] show ?thesis by blast
qed

section \<open>The ripple pool: ageing\<close>

lemma updateRipple_inactive: "\<not> active p \<Longrightarrow> fst (updateRipple dt p) = p"
  by (simp add: updateRipple_def)

lemma updateRipples_inactive:
  "i < length rs \<Longrightarrow> \<not> active (rs ! i) \<Longrightarrow> updateRipples dt rs ! i = rs ! i"
  by (simp add: updateRipples_def updateRipple_inactive)

lemma fold_updateRipples_inactive:
  "i < length rs \<Longrightarrow> \<not> active (rs ! i) \<Longrightarrow> fold updateRipples dts rs ! i = rs ! i"
proof (induction dts arbitrary: rs)
  case Nil
  then show ?case by simp
next
  case (Cons dt dts)
  have "fold updateRipples dts (updateRipples dt rs) ! i = updateRipples dt rs ! i"
    using Cons.prems by (intro Cons.IH) (simp_all add: length_updateRipples updateRipples_inactive)
  with Cons.prems show ?case by (simp add: updateRipples_inactive)
qed

lemma updateRipple_active:
  "active p \<Longrightarrow>
   (let p' = fst (updateRipple dt p); d = snd (updateRipple dt p) in
      life p' = life p - dt * FADE_SPEED
      \<and> (active p' \<longleftrightarrow> 0 < life p - dt * FADE_SPEED)
      \<and> (active p' \<longrightarrow> scale p' = scale p + dt * EXPANSION_SPEED
            \<and> d = Drawn (pos p') (scale p') (max 0 (life p' / maxLife p') * BASE_OPACITY))
      \<and> (\<not> active p' \<longrightarrow> scale p' = 0 \<and> d = MatrixZero)
      \<and> pos p' = pos p \<and> maxLife p' = maxLife p)"
  by (auto simp: updateRipple_def Let_def)

section \<open>The flight controller: what one frame keeps and changes\<close>

lemma length3_multiplyScalar: "length3 (multiplyScalar v s) = \<bar>s\<bar> * length3 v"
proof -
  have "vec_x v * s * (vec_x v * s) + vec_y v * s * (vec_y v * s) + vec_z v * s * (vec_z v * s)
        = s\<^sup>2 * (vec_x v * vec_x v + vec_y v * vec_y v + vec_z v * vec_z v)"
    by (simp add: power2_eq_square algebra_simps)
  then show ?thesis
    by (simp add: length3_def multiplyScalar_def real_sqrt_mult)
qed

lemma length3_nonneg: "0 \<le> length3 v"
  by (simp add: length3_def)

lemma length3_setLength: "length3 v \<noteq> 0 \<Longrightarrow> 0 \<le> l \<Longrightarrow> length3 (setLength v l) = l"
  using length3_nonneg[of v]
  by (simp add: setLength_def normalize_def divideScalar_def length3_multiplyScalar)

lemma abs_vec_y_le_length3: "\<bar>vec_y v\<bar> \<le> length3 v"
proof -
  have "(vec_y v)\<^sup>2 \<le> vec_x v * vec_x v + vec_y v * vec_y v + vec_z v * vec_z v"
    by (simp add: power2_eq_square)
  then have "\<bar>vec_y v\<bar> \<le> sqrt (vec_x v * vec_x v + vec_y v * vec_y v + vec_z v * vec_z v)"
    by (intro real_le_rsqrt) simp
  then show ?thesis by (simp add: length3_def)
qed

lemma steering_speed:
  "0 \<le> desiredSpeed c \<Longrightarrow> length3 (velocity (steering dt c a)) \<le> desiredSpeed c"
proof -
  assume c: "0 \<le> desiredSpeed c"
  define v where "v = addVectors (velocity a)
     (multiplyScalar (subVectors (multiplyScalar (normalize (subVectors (target a) (position a)))
        (desiredSpeed c)) (velocity a)) (turnSpeed c * dt))"
  have v: "velocity (steering dt c a)
           = (if length3 v > desiredSpeed c then setLength v (desiredSpeed c) else v)"
    by (simp add: steering_def Let_def v_def)
  show ?thesis
  proof (cases "length3 v > desiredSpeed c")
    case True
    with c have "length3 v \<noteq> 0" by linarith
    from length3_setLength[OF this c] True v show ?thesis by simp
  next
    case False
    with v show ?thesis by simp
  qed
qed

lemma steering_position:
  "position (steering dt c a)
     = addVectors (position a) (multiplyScalar (velocity (steering dt c a)) dt)"
  by (simp add: steering_def Let_def)

lemma steering_keeps:
  "state (steering dt c a) = state a" "rippleData (steering dt c a) = rippleData a"
  "lastSplashTime (steering dt c a) = lastSplashTime a"
  by (simp_all add: steering_def Let_def)

lemma terrainCollision_keeps:
  "state (terrainCollision dt cs a) = state a"
  "rippleData (terrainCollision dt cs a) = rippleData a"
  "lastSplashTime (terrainCollision dt cs a) = lastSplashTime a"
  "vec_x (position (terrainCollision dt cs a)) = vec_x (position a)"
  "vec_z (position (terrainCollision dt cs a)) = vec_z (position a)"
  by (simp_all add: terrainCollision_def Let_def)

lemma terrainCollision_y:
  "vec_y (position (terrainCollision dt cs a)) =
     (let safe = safeAltitude cs (getHeight (vec_x (position a)) (vec_z (position a)))
      in if vec_y (position a) < safe then lerp (vec_y (position a)) safe (dt * 10)
         else vec_y (position a))"
  by (simp add: terrainCollision_def Let_def)

lemma useFrame_keeps:
  "groupRef f \<Longrightarrow> position (useFrame f a)
      = position (terrainCollision (min (delta f) 0.1) (state a) (moved f a))"
  "groupRef f \<Longrightarrow> state (useFrame f a) = state (moved f a)"
  "groupRef f \<Longrightarrow> lastSplashTime (useFrame f a) = lastSplashTime (moved f a)"
  "groupRef f \<Longrightarrow> rippleData (useFrame f a)
      = (if ripplesRef f then updateRipples (min (delta f) 0.1) (rippleData (moved f a))
         else rippleData (moved f a))"
  by (simp_all add: useFrame_def Let_def terrainCollision_keeps)

lemma moved_eq:
  "moved f a = steering (min (delta f) 0.1)
                 (snd (stateMachine (state a) f (rippleTrigger f (state a) a)))
                 (fst (stateMachine (state a) f (rippleTrigger f (state a) a)))"
  by (simp add: moved_def Let_def case_prod_beta)

lemma rippleTrigger_position: "position (rippleTrigger f cs a) = position a"
  by (simp add: rippleTrigger_def)

lemma rippleTrigger_state: "state (rippleTrigger f cs a) = state a"
  by (simp add: rippleTrigger_def)

lemma stateMachine_position: "position (fst (stateMachine cs f a)) = position a"
  by (cases cs) (simp_all add: Let_def)

lemma stateMachine_speed:
  "0 \<le> desiredSpeed (snd (stateMachine cs f a))"
  "cs = CLIMB_MOUNTAIN \<Longrightarrow> desiredSpeed (snd (stateMachine cs f a)) = 60"
  by (cases cs; simp add: Let_def)+

lemma moved_y_bound:
  "0 \<le> delta f \<Longrightarrow>
   vec_y (position (moved f a))
     \<le> vec_y (position a) + desiredSpeed (snd (stateMachine (state a) f (rippleTrigger f (state a) a)))
          * min (delta f) 0.1"
proof -
  assume d: "0 \<le> delta f"
  define c where "c = snd (stateMachine (state a) f (rippleTrigger f (state a) a))"
  define a1 where "a1 = fst (stateMachine (state a) f (rippleTrigger f (state a) a))"
  define dt where "dt = min (delta f) 0.1"
  have dt: "0 \<le> dt" using d by (simp add: dt_def)
  have m: "moved f a = steering dt c a1" by (simp add: moved_eq c_def a1_def dt_def)
  have p: "position a1 = position a"
    by (simp add: a1_def stateMachine_position rippleTrigger_position)
  have "vec_y (velocity (steering dt c a1)) \<le> desiredSpeed c"
    using abs_vec_y_le_length3[of "velocity (steering dt c a1)"]
      steering_speed[of c dt a1] stateMachine_speed(1)[of "state a" f "rippleTrigger f (state a) a"]
    by (simp add: c_def)
  then have "vec_y (velocity (steering dt c a1)) * dt \<le> desiredSpeed c * dt"
    using dt by (rule mult_right_mono)
  moreover have "vec_y (position (steering dt c a1))
       = vec_y (position a1) + vec_y (velocity (steering dt c a1)) * dt"
    by (simp add: steering_position addVectors_def multiplyScalar_def)
  ultimately show ?thesis unfolding m p c_def[symmetric] dt_def[symmetric] by simp
qed

lemma safeAltitude_nonneg: "cs \<noteq> SKIM \<Longrightarrow> cs \<noteq> DIVE_LAKE \<Longrightarrow> 0 \<le> safeAltitude cs h"
  by (simp add: safeAltitude_def waterLevel_def)

lemma rippleTrigger_pool:
  "poolReachable (rippleData a) \<Longrightarrow> poolReachable (rippleData (rippleTrigger f cs a))"
  by (simp add: rippleTrigger_def pool_spawn)

lemma stateMachine_pool:
  "poolReachable (rippleData a) \<Longrightarrow> poolReachable (rippleData (fst (stateMachine cs f a)))"
  by (cases cs) (simp_all add: Let_def pool_spawn)

lemma useFrame_pool:
  "poolReachable (rippleData a) \<Longrightarrow> poolReachable (rippleData (useFrame f a))"
proof (cases "groupRef f")
  case False
  assume "poolReachable (rippleData a)"
  with False show ?thesis by (simp add: useFrame_def)
next
  case True
  assume "poolReachable (rippleData a)"
  then have "poolReachable (rippleData (moved f a))"
    by (simp add: moved_eq steering_keeps stateMachine_pool rippleTrigger_pool)
  then show ?thesis by (simp add: useFrame_keeps(4)[OF True] pool_tick)
qed

lemma initialActor_pool: "poolReachable (rippleData initialActor)"
  by (simp add: initialActor_def pool_init)

section \<open>The ripple pool: capacity and lifetime\<close>

text \<open>
  Claim C3. The pool holds exactly five entries, in every pool the program can
  reach, so at most five are active; the frame callback keeps the pool among the
  reachable ones. Six calls of \<open>spawnRipple\<close> in a row, from the initial pool or
  from any reachable one, leave exactly five entries active. A call that finds
  every entry active (the active count is the length) returns the pool as it was.
\<close>

theorem ripple_pool_capacity:
  "length initialRipples = MAX_COUNT \<and> MAX_COUNT = 5 \<and> poolReachable (rippleData initialActor)
   \<and> (poolReachable rs \<longrightarrow>
         length rs = 5 \<and> activeCount rs \<le> 5
         \<and> activeCount (spawnRipple x6 z6 s6 (spawnRipple x5 z5 s5 (spawnRipple x4 z4 s4
          (spawnRipple x3 z3 s3 (spawnRipple x2 z2 s2 (spawnRipple x1 z1 s1 rs)))))) = 5)
   \<and> (poolReachable (rippleData a) \<longrightarrow> poolReachable (rippleData (useFrame f a)))
   \<and> activeCount (spawnRipple x6 z6 s6 (spawnRipple x5 z5 s5 (spawnRipple x4 z4 s4
       (spawnRipple x3 z3 s3 (spawnRipple x2 z2 s2 (spawnRipple x1 z1 s1 initialRipples)))))) = 5
   \<and> (activeCount full = length full \<longrightarrow> spawnRipple x z s full = full)"
proof -
  have 1: "length initialRipples = MAX_COUNT \<and> MAX_COUNT = 5"
    by (simp add: initialRipples_def MAX_COUNT_def)
  have 2: "poolReachable rs \<longrightarrow>
         length rs = 5 \<and> activeCount rs \<le> 5
         \<and> activeCount (spawnRipple x6 z6 s6 (spawnRipple x5 z5 s5 (spawnRipple x4 z4 s4
          (spawnRipple x3 z3 s3 (spawnRipple x2 z2 s2 (spawnRipple x1 z1 s1 rs)))))) = 5"
    using poolReachable_length[of rs] activeCount_le[of rs]
      six_spawns_any[of rs x6 z6 s6 x5 z5 s5 x4 z4 s4 x3 z3 s3 x2 z2 s2 x1 z1 s1]
    by auto
  have 3: "poolReachable (rippleData a) \<longrightarrow> poolReachable (rippleData (useFrame f a))"
    using useFrame_pool[of a f] by blast
  have 4: "activeCount (spawnRipple x6 z6 s6 (spawnRipple x5 z5 s5 (spawnRipple x4 z4 s4
       (spawnRipple x3 z3 s3 (spawnRipple x2 z2 s2 (spawnRipple x1 z1 s1 initialRipples)))))) = 5"
    by (rule six_spawns_any) (rule length_initialRipples)
  have 5: "activeCount full = length full \<longrightarrow> spawnRipple x z s full = full"
    using spawnRipple_full[of full x z s] activeCount_full[of full] by blast
  from 1 initialActor_pool 2 3 4 5 show ?thesis by blast
qed

theorem ripple_pool_capacity_witness:
  "poolReachable (updateRipples 0.1 (spawnRipple 1 2 ENTRY_SCALE initialRipples))
   \<and> length (updateRipples 0.1 (spawnRipple 1 2 ENTRY_SCALE initialRipples)) = 5
   \<and> activeCount (updateRipples 0.1 (spawnRipple 1 2 ENTRY_SCALE initialRipples)) \<le> 5
   \<and> poolReachable (rippleData initialActor)
   \<and> poolReachable (rippleData (useFrame sixtyHz initialActor))
   \<and> activeCount fullRipples = length fullRipples
   \<and> spawnRipple 1 2 ENTRY_SCALE fullRipples = fullRipples"
proof -
  have r: "poolReachable (updateRipples 0.1 (spawnRipple 1 2 ENTRY_SCALE initialRipples))"
    by (intro pool_tick pool_spawn pool_init)
  have f: "activeCount fullRipples = length fullRipples"
    by (simp add: fullRipples_def activeCount_def)
  from r f
    ripple_pool_capacity[where rs = "updateRipples 0.1 (spawnRipple 1 2 ENTRY_SCALE initialRipples)"
      and a = initialActor and f = sixtyHz and full = fullRipples and x = 1 and z = 2
      and s = ENTRY_SCALE]
  show ?thesis by blast
qed

text \<open>
  Claim C4. One ageing pass with time step \<open>dt\<close> takes \<open>dt\<close> times the fade rate
  from the life of every active entry and adds \<open>dt\<close> times the expansion rate to
  its scale. The entry stays active exactly when the life left is above zero;
  otherwise it is deactivated and its scale is reset to zero. An entry that stays
  active is drawn with brightness \<open>max 0 (life / maxLife)\<close> times the base opacity.
  An inactive entry is left as it is by any number of passes, so only a spawn can
  activate it again. The frame callback runs the pass with the clamped frame time.
\<close>

theorem updateRipples_tick:
  "length (updateRipples dt rs) = length rs
   \<and> (\<forall>i < length rs. active (rs ! i) \<longrightarrow>
        (let p = rs ! i; p' = updateRipples dt rs ! i; d = drawRipples dt rs ! i in
           life p' = life p - dt * FADE_SPEED
           \<and> (active p' \<longleftrightarrow> 0 < life p - dt * FADE_SPEED)
           \<and> (active p' \<longrightarrow> scale p' = scale p + dt * EXPANSION_SPEED
                 \<and> d = Drawn (pos p') (scale p') (max 0 (life p' / maxLife p') * BASE_OPACITY))
           \<and> (\<not> active p' \<longrightarrow> scale p' = 0 \<and> d = MatrixZero)
           \<and> pos p' = pos p \<and> maxLife p' = maxLife p))
   \<and> (\<forall>i < length rs. \<not> active (rs ! i) \<longrightarrow>
         updateRipples dt rs ! i = rs ! i \<and> fold updateRipples dts rs ! i = rs ! i)
   \<and> (groupRef f \<and> ripplesRef f \<longrightarrow>
         rippleData (useFrame f a) = updateRipples (min (delta f) 0.1) (rippleData (moved f a)))
   \<and> FADE_SPEED = 1 \<and> EXPANSION_SPEED = 25 \<and> BASE_OPACITY = 0.1"
proof -
  have 1: "length (updateRipples dt rs) = length rs" by (rule length_updateRipples)
  have 2: "\<forall>i < length rs. active (rs ! i) \<longrightarrow>
        (let p = rs ! i; p' = updateRipples dt rs ! i; d = drawRipples dt rs ! i in
           life p' = life p - dt * FADE_SPEED
           \<and> (active p' \<longleftrightarrow> 0 < life p - dt * FADE_SPEED)
           \<and> (active p' \<longrightarrow> scale p' = scale p + dt * EXPANSION_SPEED
                 \<and> d = Drawn (pos p') (scale p') (max 0 (life p' / maxLife p') * BASE_OPACITY))
           \<and> (\<not> active p' \<longrightarrow> scale p' = 0 \<and> d = MatrixZero)
           \<and> pos p' = pos p \<and> maxLife p' = maxLife p)"
  proof (intro allI impI)
    fix i assume i: "i < length rs" and a: "active (rs ! i)"
    from updateRipple_active[OF a, of dt] i show "(let p = rs ! i; p' = updateRipples dt rs ! i; d = drawRipples dt rs ! i in
           life p' = life p - dt * FADE_SPEED
           \<and> (active p' \<longleftrightarrow> 0 < life p - dt * FADE_SPEED)
           \<and> (active p' \<longrightarrow> scale p' = scale p + dt * EXPANSION_SPEED
                 \<and> d = Drawn (pos p') (scale p') (max 0 (life p' / maxLife p') * BASE_OPACITY))
           \<and> (\<not> active p' \<longrightarrow> scale p' = 0 \<and> d = MatrixZero)
           \<and> pos p' = pos p \<and> maxLife p' = maxLife p)"
      by (simp add: updateRipples_def drawRipples_def Let_def)
  qed
  have 3: "\<forall>i < length rs. \<not> active (rs ! i) \<longrightarrow>
         updateRipples dt rs ! i = rs ! i \<and> fold updateRipples dts rs ! i = rs ! i"
    by (simp add: updateRipples_inactive fold_updateRipples_inactive)
  have 4: "FADE_SPEED = 1 \<and> EXPANSION_SPEED = 25 \<and> BASE_OPACITY = 0.1"
    by (simp add: FADE_SPEED_def EXPANSION_SPEED_def BASE_OPACITY_def)
  have 5: "groupRef f \<and> ripplesRef f \<longrightarrow>
         rippleData (useFrame f a) = updateRipples (min (delta f) 0.1) (rippleData (moved f a))"
    using useFrame_keeps(4)[of f a] by simp
  from 1 2 3 5 4 show ?thesis by blast
qed

theorem updateRipples_tick_witness:
  "(0::nat) < length twoRipples \<and> active (twoRipples ! 0)
   \<and> updateRipples 0.1 twoRipples ! 0 =
        \<lparr>pos = Vector3 (-170) (-1.9) 65, scale = 5.96, life = 1.8, maxLife = 2, active = True\<rparr>
   \<and> drawRipples 0.1 twoRipples ! 0 = Drawn (Vector3 (-170) (-1.9) 65) 5.96 0.09
   \<and> (2::nat) < length twoRipples \<and> active (twoRipples ! 2)
   \<and> \<not> active (updateRipples 0.1 twoRipples ! 2)
   \<and> scale (updateRipples 0.1 twoRipples ! 2) = 0
   \<and> life (updateRipples 0.1 twoRipples ! 2) = 0
   \<and> drawRipples 0.1 twoRipples ! 2 = MatrixZero
   \<and> (1::nat) < length twoRipples \<and> \<not> active (twoRipples ! 1)
   \<and> fold updateRipples [0.1, 0.05] twoRipples ! 1 = twoRipples ! 1
   \<and> groupRef sixtyHz \<and> ripplesRef sixtyHz
   \<and> rippleData (useFrame sixtyHz climbActor)
       = updateRipples (min (delta sixtyHz) 0.1) (rippleData (moved sixtyHz climbActor))"
proof -
  have h: "(0::nat) < length twoRipples" "active (twoRipples ! 0)"
    "(2::nat) < length twoRipples" "active (twoRipples ! 2)"
    "(1::nat) < length twoRipples" "\<not> active (twoRipples ! 1)"
    by (simp_all add: twoRipples_def)
  have v: "twoRipples ! 0 =
      \<lparr>pos = Vector3 (-170) (-1.9) 65, scale = 3.46, life = 1.9, maxLife = 2, active = True\<rparr>"
     "twoRipples ! 2 =
      \<lparr>pos = Vector3 (-150) (-1.9) 58, scale = 47.82, life = 0.1, maxLife = 2, active = True\<rparr>"
    by (simp_all add: twoRipples_def)
  have g: "groupRef sixtyHz" "ripplesRef sixtyHz" by (simp_all add: sixtyHz_def)
  note t = updateRipples_tick[of "0.1" twoRipples "[0.1, 0.05]" sixtyHz climbActor]
  from t h(1,2) have a: "(let p = twoRipples ! 0; p' = updateRipples 0.1 twoRipples ! 0; d = drawRipples 0.1 twoRipples ! 0 in
           life p' = life p - 0.1 * FADE_SPEED
           \<and> (active p' \<longleftrightarrow> 0 < life p - 0.1 * FADE_SPEED)
           \<and> (active p' \<longrightarrow> scale p' = scale p + 0.1 * EXPANSION_SPEED
                 \<and> d = Drawn (pos p') (scale p') (max 0 (life p' / maxLife p') * BASE_OPACITY))
           \<and> (\<not> active p' \<longrightarrow> scale p' = 0 \<and> d = MatrixZero)
           \<and> pos p' = pos p \<and> maxLife p' = maxLife p)" by blast
  from t h(3,4) have b: "(let p = twoRipples ! 2; p' = updateRipples 0.1 twoRipples ! 2; d = drawRipples 0.1 twoRipples ! 2 in
           life p' = life p - 0.1 * FADE_SPEED
           \<and> (active p' \<longleftrightarrow> 0 < life p - 0.1 * FADE_SPEED)
           \<and> (active p' \<longrightarrow> scale p' = scale p + 0.1 * EXPANSION_SPEED
                 \<and> d = Drawn (pos p') (scale p') (max 0 (life p' / maxLife p') * BASE_OPACITY))
           \<and> (\<not> active p' \<longrightarrow> scale p' = 0 \<and> d = MatrixZero)
           \<and> pos p' = pos p \<and> maxLife p' = maxLife p)" by blast
  from t h(5,6) have c: "fold updateRipples [0.1, 0.05] twoRipples ! 1 = twoRipples ! 1" by blast
  from t have k: "FADE_SPEED = 1" "EXPANSION_SPEED = 25" "BASE_OPACITY = 0.1" by blast+
  from a have a': "updateRipples 0.1 twoRipples ! 0 =
        \<lparr>pos = Vector3 (-170) (-1.9) 65, scale = 5.96, life = 1.8, maxLife = 2, active = True\<rparr>"
      "drawRipples 0.1 twoRipples ! 0 = Drawn (Vector3 (-170) (-1.9) 65) 5.96 0.09"
    unfolding Let_def v k by (auto intro: ripple.equality)
  from b have b': "\<not> active (updateRipples 0.1 twoRipples ! 2)"
     "scale (updateRipples 0.1 twoRipples ! 2) = 0"
     "life (updateRipples 0.1 twoRipples ! 2) = 0"
     "drawRipples 0.1 twoRipples ! 2 = MatrixZero"
    unfolding Let_def v k by auto
  from t g have u: "rippleData (useFrame sixtyHz climbActor)
       = updateRipples (min (delta sixtyHz) 0.1) (rippleData (moved sixtyHz climbActor))"
    by blast
  from h a' b' c g u show ?thesis by blast
qed

section \<open>The flight controller: terrain collision\<close>

lemma useFrame_y:
  "groupRef f \<Longrightarrow>
   vec_y (position (useFrame f a)) =
     (let m = position (moved f a);
          safe = safeAltitude (state a) (getHeight (vec_x (position (useFrame f a)))
                                                   (vec_z (position (useFrame f a))))
      in if vec_y m < safe then lerp (vec_y m) safe (min (delta f) 0.1 * 10) else vec_y m)"
  by (simp add: useFrame_keeps terrainCollision_keeps terrainCollision_y Let_def)

lemma lerp_below: "y < safe \<Longrightarrow> t < 1 \<Longrightarrow> lerp y safe t < safe"
proof -
  assume h: "y < safe" "t < 1"
  have "safe - lerp y safe t = (1 - t) * (safe - y)" by (simp add: lerp_def algebra_simps)
  moreover from h have "0 < (1 - t) * (safe - y)" by simp
  ultimately show ?thesis by linarith
qed

lemma climb_below_safe:
  "0 \<le> delta f \<Longrightarrow> groupRef f \<Longrightarrow>
   vec_y (position (moved f climbActor))
     < safeAltitude (state climbActor)
         (getHeight (vec_x (position (useFrame f climbActor)))
                    (vec_z (position (useFrame f climbActor))))
   \<or> 1 / 50 \<le> delta f"
proof -
  assume d: "0 \<le> delta f" and g: "groupRef f"
  have s: "state climbActor = CLIMB_MOUNTAIN" "vec_y (position climbActor) = -1.2"
    by (simp_all add: climbActor_def)
  have "0 \<le> safeAltitude (state climbActor)
         (getHeight (vec_x (position (useFrame f climbActor)))
                    (vec_z (position (useFrame f climbActor))))"
    by (rule safeAltitude_nonneg) (simp_all add: s)
  moreover have "desiredSpeed (snd (stateMachine (state climbActor) f
                     (rippleTrigger f (state climbActor) climbActor))) = 60"
    by (rule stateMachine_speed(2)) (rule s(1))
  then have "vec_y (position (moved f climbActor)) \<le> -1.2 + 60 * min (delta f) 0.1"
    using moved_y_bound[OF d, of climbActor] by (simp only: s(2))
  ultimately show ?thesis by (cases "1 / 50 \<le> delta f") (auto simp: min_def)
qed

text \<open>
  Claim C1, as it is stated, fails. The actor has just left \<open>SKIM\<close> and is in
  \<open>CLIMB_MOUNTAIN\<close>, at altitude \<open>-1.2\<close> over the lake, and the frame lasts a
  sixtieth of a second. After the move the altitude is still below zero, the safe
  altitude of this state is at least zero, and the collision step moves the actor
  a sixth of the way up: at the end of the frame the altitude is below the safe
  altitude of the frame's position.
\<close>

theorem altitude_below_safe_counterexample:
  "groupRef sixtyHz \<and> 0 < delta sixtyHz \<and> delta sixtyHz < 0.1
   \<and> state climbActor = CLIMB_MOUNTAIN
   \<and> vec_y (position (useFrame sixtyHz climbActor))
       < safeAltitude (state climbActor)
           (getHeight (vec_x (position (useFrame sixtyHz climbActor)))
                      (vec_z (position (useFrame sixtyHz climbActor))))"
proof -
  have f: "groupRef sixtyHz" "0 \<le> delta sixtyHz" "0 < delta sixtyHz" "delta sixtyHz < 0.1"
    "\<not> 1 / 50 \<le> delta sixtyHz"
    by (simp_all add: sixtyHz_def)
  from climb_below_safe[OF f(2) f(1)] f(5)
  have b: "vec_y (position (moved sixtyHz climbActor))
     < safeAltitude (state climbActor)
         (getHeight (vec_x (position (useFrame sixtyHz climbActor)))
                    (vec_z (position (useFrame sixtyHz climbActor))))" by blast
  have t: "min (delta sixtyHz) 0.1 * 10 < 1" by (simp add: sixtyHz_def)
  from useFrame_y[OF f(1), of climbActor] b
  have "vec_y (position (useFrame sixtyHz climbActor))
        = lerp (vec_y (position (moved sixtyHz climbActor)))
            (safeAltitude (state climbActor)
               (getHeight (vec_x (position (useFrame sixtyHz climbActor)))
                          (vec_z (position (useFrame sixtyHz climbActor)))))
            (min (delta sixtyHz) 0.1 * 10)"
    by (simp add: Let_def)
  with lerp_below[OF b t]
  have "vec_y (position (useFrame sixtyHz climbActor))
       < safeAltitude (state climbActor)
           (getHeight (vec_x (position (useFrame sixtyHz climbActor)))
                      (vec_z (position (useFrame sixtyHz climbActor))))"
    by simp
  with f show ?thesis by (simp add: climbActor_def)
qed

text \<open>
  Claim C1, amended. In a frame with the group mounted and a frame time that is
  not negative, with \<open>dt\<close> the frame time clamped to \<open>0.1\<close>, the collision step
  keeps the horizontal position and never lowers the altitude. An altitude at or
  above the safe altitude after the move is kept. An altitude below it is eased to
  \<open>y + 10 * dt * (safe - y)\<close>: the shortfall below the safe altitude shrinks by the
  factor \<open>1 - 10 * dt\<close>, so the altitude stays strictly below the safe altitude
  when the frame time is under \<open>0.1\<close> and reaches it when the frame time is \<open>0.1\<close>
  or more.
\<close>

theorem collision_easing:
  assumes "groupRef f" and "0 \<le> delta f"
  shows "let dt = min (delta f) 0.1; m = position (moved f a); p = position (useFrame f a);
             safe = safeAltitude (state a) (getHeight (vec_x p) (vec_z p))
         in vec_x p = vec_x m \<and> vec_z p = vec_z m
            \<and> vec_y p = (if vec_y m < safe then vec_y m + 10 * dt * (safe - vec_y m) else vec_y m)
            \<and> vec_y m \<le> vec_y p
            \<and> max 0 (safe - vec_y p) = (1 - 10 * dt) * max 0 (safe - vec_y m)
            \<and> (vec_y m < safe \<and> delta f < 0.1 \<longrightarrow> vec_y p < safe)
            \<and> (safe \<le> vec_y m \<or> 0.1 \<le> delta f \<longrightarrow> safe \<le> vec_y p)"
proof -
  define dt where "dt = min (delta f) 0.1"
  define m where "m = position (moved f a)"
  define p where "p = position (useFrame f a)"
  define safe where "safe = safeAltitude (state a) (getHeight (vec_x p) (vec_z p))"
  have dt: "0 \<le> dt" "10 * dt \<le> 1" using assms(2) by (simp_all add: dt_def)
  have px: "vec_x p = vec_x m" and pz: "vec_z p = vec_z m"
    using assms(1) by (simp_all add: p_def m_def useFrame_keeps terrainCollision_keeps)
  have py: "vec_y p = (if vec_y m < safe then vec_y m + 10 * dt * (safe - vec_y m) else vec_y m)"
    using assms(1)
    by (simp add: safe_def px pz)
       (simp add: p_def m_def dt_def useFrame_keeps terrainCollision_y Let_def lerp_def
          algebra_simps)
  have mono: "vec_y m \<le> vec_y p"
  proof (cases "vec_y m < safe")
    case True
    then have "0 \<le> 10 * dt * (safe - vec_y m)" using dt by simp
    with True py show ?thesis by simp
  next
    case False
    with py show ?thesis by simp
  qed
  have gap: "max 0 (safe - vec_y p) = (1 - 10 * dt) * max 0 (safe - vec_y m)"
  proof (cases "vec_y m < safe")
    case True
    have e: "safe - vec_y p = (1 - 10 * dt) * (safe - vec_y m)"
      using True py by (simp add: algebra_simps)
    have "0 \<le> (1 - 10 * dt) * (safe - vec_y m)" using True dt by simp
    with e True show ?thesis by (simp add: max_def)
  next
    case False
    with py show ?thesis by (simp add: max_def)
  qed
  have below: "vec_y m < safe \<and> delta f < 0.1 \<longrightarrow> vec_y p < safe"
  proof
    assume h: "vec_y m < safe \<and> delta f < 0.1"
    then have "0 < 1 - 10 * dt" by (simp add: dt_def)
    with h have "0 < (1 - 10 * dt) * (safe - vec_y m)" by simp
    moreover have "safe - vec_y p = (1 - 10 * dt) * (safe - vec_y m)"
      using h py by (simp add: algebra_simps)
    ultimately show "vec_y p < safe" by linarith
  qed
  have above: "safe \<le> vec_y m \<or> 0.1 \<le> delta f \<longrightarrow> safe \<le> vec_y p"
  proof
    assume h: "safe \<le> vec_y m \<or> 0.1 \<le> delta f"
    show "safe \<le> vec_y p"
    proof (cases "vec_y m < safe")
      case True
      with h have "dt = 0.1" by (simp add: dt_def)
      with True py show ?thesis by simp
    next
      case False
      with py show ?thesis by simp
    qed
  qed
  from px pz py mono gap below above show ?thesis
    unfolding Let_def dt_def[symmetric] m_def[symmetric] p_def[symmetric] safe_def[symmetric]
    by blast
qed

theorem collision_easing_witness:
  "groupRef sixtyHz \<and> 0 \<le> delta sixtyHz \<and> delta sixtyHz < 0.1
   \<and> vec_y (position (moved sixtyHz climbActor))
       < safeAltitude (state climbActor)
           (getHeight (vec_x (position (useFrame sixtyHz climbActor)))
                      (vec_z (position (useFrame sixtyHz climbActor))))
   \<and> vec_y (position (moved sixtyHz climbActor)) \<le> vec_y (position (useFrame sixtyHz climbActor))
   \<and> vec_y (position (useFrame sixtyHz climbActor))
       < safeAltitude (state climbActor)
           (getHeight (vec_x (position (useFrame sixtyHz climbActor)))
                      (vec_z (position (useFrame sixtyHz climbActor))))
   \<and> groupRef stalled \<and> 0 \<le> delta stalled \<and> 0.1 \<le> delta stalled
   \<and> safeAltitude (state climbActor)
           (getHeight (vec_x (position (useFrame stalled climbActor)))
                      (vec_z (position (useFrame stalled climbActor))))
       \<le> vec_y (position (useFrame stalled climbActor))"
proof -
  have f: "groupRef sixtyHz" "0 \<le> delta sixtyHz" "delta sixtyHz < 0.1"
    "\<not> 1 / 50 \<le> delta sixtyHz"
    by (simp_all add: sixtyHz_def)
  have g: "groupRef stalled" "0 \<le> delta stalled" "0.1 \<le> delta stalled"
    by (simp_all add: stalled_def)
  from climb_below_safe[OF f(2) f(1)] f(4)
  have b: "vec_y (position (moved sixtyHz climbActor))
     < safeAltitude (state climbActor)
         (getHeight (vec_x (position (useFrame sixtyHz climbActor)))
                    (vec_z (position (useFrame sixtyHz climbActor))))" by blast
  from collision_easing[OF f(1) f(2), of climbActor] b f(3)
  have 1: "vec_y (position (moved sixtyHz climbActor)) \<le> vec_y (position (useFrame sixtyHz climbActor))
    \<and> vec_y (position (useFrame sixtyHz climbActor))
       < safeAltitude (state climbActor)
           (getHeight (vec_x (position (useFrame sixtyHz climbActor)))
                      (vec_z (position (useFrame sixtyHz climbActor))))"
    unfolding Let_def by blast
  from collision_easing[OF g(1) g(2), of climbActor] g(3)
  have 2: "safeAltitude (state climbActor)
           (getHeight (vec_x (position (useFrame stalled climbActor)))
                      (vec_z (position (useFrame stalled climbActor))))
       \<le> vec_y (position (useFrame stalled climbActor))"
    unfolding Let_def by blast
  from f g b 1 2 show ?thesis by blast
qed

section \<open>The flight controller: splashes in \<open>DIVE_LAKE\<close>\<close>

lemma diveLake_moved:
  assumes "state a = DIVE_LAKE"
  shows "rippleData (moved f a) =
           (if diveSplash f a
            then spawnRipple (vec_x (position a)) (vec_z (position a)) ENTRY_SCALE (rippleData a)
            else rippleData a)"
    and "lastSplashTime (moved f a) = (if diveSplash f a then time f else lastSplashTime a)"
    and "state (moved f a) = (if diveExit a then SKIM else DIVE_LAKE)"
  using assms
  by (auto simp: moved_eq steering_keeps rippleTrigger_def Let_def diveSplash_def diveExit_def
      skimStart_def LAKE_CENTER_def)

lemma sqrt_900: "sqrt 900 = 30"
  by (rule real_sqrt_unique) simp_all

lemma sqrt_225: "sqrt 225 = 15"
  by (rule real_sqrt_unique) simp_all

lemma sqrt_144: "sqrt 144 = 12"
  by (rule real_sqrt_unique) simp_all

lemma dive_far_facts:
  "state diveActorFar = DIVE_LAKE" "diveSplash diveFrame diveActorFar"
  "distToEntry (position diveActorFar) = 30"
  by (simp_all add: diveActorFar_def diveFrame_def diveSplash_def diveExit_def distToEntry_def
      skimStart_def LAKE_CENTER_def sqrt_900)

lemma dive_high_facts:
  "state diveActorHigh = DIVE_LAKE" "diveSplash diveFrame diveActorHigh"
  "distanceTo (position diveActorHigh) (Vector3 (-180) (-3) 70) = 15"
  "vec_y (position diveActorHigh) = 6"
  by (simp_all add: diveActorHigh_def diveFrame_def diveSplash_def diveExit_def distanceTo_def
      sqrt_225)

lemma one_spawn_aged:
  "activeCount (updateRipples (1 / 60) (spawnRipple x z ENTRY_SCALE initialRipples)) = 1"
  "activeCount initialRipples = 0"
  by (simp_all add: spawnRipple_eq_wave spawnWave_def initialRipples_def MAX_COUNT_def
      blankRipple_def activeCount_def eval_nat_numeral updateRipples_def updateRipple_def
      Let_def LIFE_DURATION_def FADE_SPEED_def)

text \<open>
  Claim C5, as it is stated, fails. A frame that starts in \<open>DIVE_LAKE\<close> spawns a
  ripple through the branch that leaves the state, which asks for the cooldown
  only. With the actor at altitude \<open>-1.6\<close> and \<open>30\<close> away from the entry point, a
  ripple is spawned although the distance is not below \<open>25\<close>; with the actor
  \<open>15\<close> from the dive target at altitude \<open>6\<close>, a ripple is spawned although the
  altitude is not below \<open>-1.5\<close>.
\<close>

theorem diveLake_spawn_counterexample:
  "state diveActorFar = DIVE_LAKE \<and> groupRef diveFrame
   \<and> activeCount (rippleData diveActorFar) = 0
   \<and> rippleData (moved diveFrame diveActorFar)
       = spawnRipple (-150) 70 ENTRY_SCALE (rippleData diveActorFar)
   \<and> activeCount (rippleData (useFrame diveFrame diveActorFar)) = 1
   \<and> \<not> distToEntry (position diveActorFar) < 25
   \<and> state diveActorHigh = DIVE_LAKE
   \<and> activeCount (rippleData diveActorHigh) = 0
   \<and> rippleData (moved diveFrame diveActorHigh)
       = spawnRipple (-168) 70 ENTRY_SCALE (rippleData diveActorHigh)
   \<and> activeCount (rippleData (useFrame diveFrame diveActorHigh)) = 1
   \<and> \<not> vec_y (position diveActorHigh) < -1.5"
proof -
  have g: "groupRef diveFrame" "ripplesRef diveFrame" "min (delta diveFrame) 0.1 = 1 / 60"
    by (simp_all add: diveFrame_def)
  have p: "rippleData diveActorFar = initialRipples" "position diveActorFar = Vector3 (-150) (-1.6) 70"
    "rippleData diveActorHigh = initialRipples" "position diveActorHigh = Vector3 (-168) 6 70"
    by (simp_all add: diveActorFar_def diveActorHigh_def)
  have 1: "rippleData (moved diveFrame diveActorFar)
       = spawnRipple (-150) 70 ENTRY_SCALE (rippleData diveActorFar)"
    using diveLake_moved(1)[OF dive_far_facts(1), of diveFrame] dive_far_facts(2)
    by (simp add: p)
  have 2: "rippleData (moved diveFrame diveActorHigh)
       = spawnRipple (-168) 70 ENTRY_SCALE (rippleData diveActorHigh)"
    using diveLake_moved(1)[OF dive_high_facts(1), of diveFrame] dive_high_facts(2)
    by (simp add: p)
  have 3: "activeCount (rippleData (useFrame diveFrame diveActorFar)) = 1"
    by (simp add: useFrame_keeps(4)[OF g(1)] g 1 p one_spawn_aged)
  have 4: "activeCount (rippleData (useFrame diveFrame diveActorHigh)) = 1"
    by (simp add: useFrame_keeps(4)[OF g(1)] g 2 p one_spawn_aged)
  from 1 2 3 4 g(1) dive_far_facts dive_high_facts show ?thesis
    by (simp add: p one_spawn_aged)
qed

text \<open>
  Claim C5, amended. A frame that starts in \<open>DIVE_LAKE\<close> calls \<open>spawnRipple\<close>
  exactly when more than \<open>2.0\<close> has passed since the last splash and the exit
  condition of the state holds: altitude at most \<open>-1.5\<close>, or less than \<open>20\<close> from
  the dive target. It calls it once, at the horizontal position of the actor and
  with the entry scale, so at most one entry becomes active; the trigger with the
  horizontal distance below \<open>25\<close> and the altitude below \<open>-1.5\<close> is a case of
  this. The call sets the time of the last splash to the time of the frame.
  Consequently a later frame in \<open>DIVE_LAKE\<close>, no more than \<open>2.0\<close> after a frame
  that splashed and with no splash recorded in between, spawns nothing.
\<close>

theorem diveLake_splash:
  assumes "groupRef f" and "state a = DIVE_LAKE"
  shows "rippleData (moved f a) =
           (if diveSplash f a
            then spawnRipple (vec_x (position a)) (vec_z (position a)) ENTRY_SCALE (rippleData a)
            else rippleData a)
   \<and> rippleData (useFrame f a) =
           (if ripplesRef f then updateRipples (min (delta f) 0.1) (rippleData (moved f a))
            else rippleData (moved f a))
   \<and> lastSplashTime (useFrame f a) = (if diveSplash f a then time f else lastSplashTime a)
   \<and> state (useFrame f a) = (if diveExit a then SKIM else DIVE_LAKE)
   \<and> activeCount (rippleData (moved f a)) \<le> activeCount (rippleData a) + 1
   \<and> (distToEntry (position a) < 25 \<and> vec_y (position a) < -1.5
        \<and> time f - lastSplashTime a > 2.0 \<longrightarrow> diveSplash f a)
   \<and> (diveSplash f a \<and> groupRef f2 \<and> state a2 = DIVE_LAKE
        \<and> lastSplashTime a2 = lastSplashTime (useFrame f a) \<and> time f2 - time f \<le> 2.0
        \<longrightarrow> \<not> diveSplash f2 a2 \<and> rippleData (moved f2 a2) = rippleData a2
            \<and> lastSplashTime (useFrame f2 a2) = lastSplashTime a2)"
proof -
  note m = diveLake_moved[OF assms(2), of f]
  have 1: "rippleData (moved f a) =
           (if diveSplash f a
            then spawnRipple (vec_x (position a)) (vec_z (position a)) ENTRY_SCALE (rippleData a)
            else rippleData a)" by (rule m(1))
  have 2: "rippleData (useFrame f a) =
           (if ripplesRef f then updateRipples (min (delta f) 0.1) (rippleData (moved f a))
            else rippleData (moved f a))" by (rule useFrame_keeps(4)[OF assms(1)])
  have 3: "lastSplashTime (useFrame f a) = (if diveSplash f a then time f else lastSplashTime a)"
    by (simp add: useFrame_keeps(3)[OF assms(1)] m(2))
  have 4: "state (useFrame f a) = (if diveExit a then SKIM else DIVE_LAKE)"
    by (simp add: useFrame_keeps(2)[OF assms(1)] m(3))
  have 5: "activeCount (rippleData (moved f a)) \<le> activeCount (rippleData a) + 1"
    unfolding 1 using activeCount_spawnRipple[of "vec_x (position a)" "vec_z (position a)"
        ENTRY_SCALE "rippleData a"] by simp
  have 6: "distToEntry (position a) < 25 \<and> vec_y (position a) < -1.5
        \<and> time f - lastSplashTime a > 2.0 \<longrightarrow> diveSplash f a"
    by (simp add: diveSplash_def diveExit_def)
  have 7: "diveSplash f a \<and> groupRef f2 \<and> state a2 = DIVE_LAKE
        \<and> lastSplashTime a2 = lastSplashTime (useFrame f a) \<and> time f2 - time f \<le> 2.0
        \<longrightarrow> \<not> diveSplash f2 a2 \<and> rippleData (moved f2 a2) = rippleData a2
            \<and> lastSplashTime (useFrame f2 a2) = lastSplashTime a2"
  proof
    assume h: "diveSplash f a \<and> groupRef f2 \<and> state a2 = DIVE_LAKE
        \<and> lastSplashTime a2 = lastSplashTime (useFrame f a) \<and> time f2 - time f \<le> 2.0"
    with 3 have "lastSplashTime a2 = time f" by simp
    with h have n: "\<not> diveSplash f2 a2" by (simp add: diveSplash_def)
    from h have s2: "state a2 = DIVE_LAKE" and g2: "groupRef f2" by simp_all
    from n diveLake_moved[OF s2, of f2] useFrame_keeps(3)[OF g2, of a2]
    show "\<not> diveSplash f2 a2 \<and> rippleData (moved f2 a2) = rippleData a2
            \<and> lastSplashTime (useFrame f2 a2) = lastSplashTime a2" by simp
  qed
  from 1 2 3 4 5 6 7 show ?thesis by blast
qed

theorem diveLake_splash_witness:
  "groupRef diveFrame \<and> state diveActorNear = DIVE_LAKE
   \<and> distToEntry (position diveActorNear) < 25 \<and> vec_y (position diveActorNear) < -1.5
   \<and> time diveFrame - lastSplashTime diveActorNear > 2.0
   \<and> diveSplash diveFrame diveActorNear
   \<and> lastSplashTime (useFrame diveFrame diveActorNear) = 10
   \<and> state (useFrame diveFrame diveActorNear) = SKIM
   \<and> groupRef diveFrameSoon \<and> state diveActorAgain = DIVE_LAKE
   \<and> lastSplashTime diveActorAgain = lastSplashTime (useFrame diveFrame diveActorNear)
   \<and> time diveFrameSoon - time diveFrame \<le> 2.0
   \<and> rippleData (moved diveFrameSoon diveActorAgain) = rippleData diveActorAgain
   \<and> lastSplashTime (useFrame diveFrameSoon diveActorAgain) = 10"
proof -
  have h: "groupRef diveFrame" "state diveActorNear = DIVE_LAKE"
    "distToEntry (position diveActorNear) < 25" "vec_y (position diveActorNear) < -1.5"
    "time diveFrame - lastSplashTime diveActorNear > 2.0"
    "groupRef diveFrameSoon" "state diveActorAgain = DIVE_LAKE"
    "time diveFrameSoon - time diveFrame \<le> 2.0" "lastSplashTime diveActorAgain = 10"
    "time diveFrame = 10"
    by (simp_all add: diveFrame_def diveFrameSoon_def diveActorNear_def diveActorAgain_def
        distToEntry_def skimStart_def LAKE_CENTER_def sqrt_144)
  note t = diveLake_splash[OF h(1) h(2), of diveFrameSoon diveActorAgain]
  from t h(3,4,5) have s: "diveSplash diveFrame diveActorNear" by blast
  from t s h(10) have l: "lastSplashTime (useFrame diveFrame diveActorNear) = 10" by simp
  from t s have e: "state (useFrame diveFrame diveActorNear) = SKIM"
    by (simp add: diveSplash_def)
  from l h(9) have q: "lastSplashTime diveActorAgain = lastSplashTime (useFrame diveFrame diveActorNear)"
    by simp
  from t s h(6,7,8) q
  have r: "rippleData (moved diveFrameSoon diveActorAgain) = rippleData diveActorAgain
     \<and> lastSplashTime (useFrame diveFrameSoon diveActorAgain) = lastSplashTime diveActorAgain"
    by blast
  from h s l e q r show ?thesis by simp
qed

section \<open>The flight controller: transitions\<close>

text \<open>
  Every frame either keeps the state or follows one edge of the cycle:
  \<open>CINEMATIC_ENTRY\<close> to \<open>DIVE_BOMB\<close>, and \<open>APPROACH_LAKE\<close>, \<open>DIVE_LAKE\<close>, \<open>SKIM\<close>,
  \<open>CLIMB_MOUNTAIN\<close>, \<open>DIVE_BOMB\<close>, \<open>PULL_UP\<close> and back to \<open>APPROACH_LAKE\<close>.
\<close>

lemma stateMachine_edges:
  "state a = cs \<Longrightarrow>
   state (fst (stateMachine cs f a)) = cs
   \<or> (cs, state (fst (stateMachine cs f a)))
       \<in> {(CINEMATIC_ENTRY, DIVE_BOMB), (APPROACH_LAKE, DIVE_LAKE), (DIVE_LAKE, SKIM),
           (SKIM, CLIMB_MOUNTAIN), (CLIMB_MOUNTAIN, DIVE_BOMB), (DIVE_BOMB, PULL_UP),
           (PULL_UP, APPROACH_LAKE)}"
  by (cases cs) (auto simp: Let_def)

lemma useFrame_edges:
  "state (useFrame f a) = state a
   \<or> (state a, state (useFrame f a))
       \<in> {(CINEMATIC_ENTRY, DIVE_BOMB), (APPROACH_LAKE, DIVE_LAKE), (DIVE_LAKE, SKIM),
           (SKIM, CLIMB_MOUNTAIN), (CLIMB_MOUNTAIN, DIVE_BOMB), (DIVE_BOMB, PULL_UP),
           (PULL_UP, APPROACH_LAKE)}"
proof (cases "groupRef f")
  case False
  then show ?thesis by (simp add: useFrame_def)
next
  case True
  have "state (useFrame f a)
        = state (fst (stateMachine (state a) f (rippleTrigger f (state a) a)))"
    using True by (simp add: useFrame_keeps moved_eq steering_keeps)
  with stateMachine_edges[of "rippleTrigger f (state a) a" "state a" f]
  show ?thesis by (simp add: rippleTrigger_state)
qed

end
